theory Spec2Isabelle
  imports Complex_Main
begin

section \<open>The consensus roles of zatt (\<^verbatim>\<open>zatt/server/states.py\<close>)\<close>

text \<open>
  The module defines the three Raft roles as classes: \<^verbatim>\<open>State\<close> (the common base),
  \<^verbatim>\<open>Follower\<close>, \<^verbatim>\<open>Candidate\<close> (a subclass of \<^verbatim>\<open>Follower\<close>) and \<^verbatim>\<open>Leader\<close>.
  A role object shares \<^verbatim>\<open>persist\<close>, \<^verbatim>\<open>volatile\<close> and \<^verbatim>\<open>log\<close> with its predecessor, so the
  node is one record here and a handler is a function from the node to the node it leaves
  behind. What a handler sends, and the timers it sets, are appended to the node's list of
  effects. A Python exception is the outcome \<open>Raised\<close>, which carries the node as the
  mutations made before the raise left it.

  Python integers are \<open>int\<close>. A value that can come out of \<^verbatim>\<open>statistics.median\<close> (the
  commit index, and what is computed from it) is \<open>rat\<close>: for an even number of values
  the median is the float \<^verbatim>\<open>(a + b) / 2\<close>. A float is carried as the rational it stands for,
  which is what Python computes as long as no rounding takes place; \<open>float_exact\<close> below
  is the bound on the data that excludes rounding, and a general statement about the
  median has it as a hypothesis. Logging calls are left out, and so is the first construction of a
  state (\<^verbatim>\<open>State.__init__\<close> without an \<^verbatim>\<open>old_state\<close>), which reads the storage
  directory.
\<close>

subsection \<open>Python dictionaries, in insertion order\<close>

type_synonym ('k, 'v) dict = "('k \<times> 'v) list"

definition dict_keys :: "('k, 'v) dict \<Rightarrow> 'k list" where
  "dict_keys d = map fst d"

definition dict_values :: "('k, 'v) dict \<Rightarrow> 'v list" where
  "dict_values d = map snd d"

definition dict_get :: "('k, 'v) dict \<Rightarrow> 'k \<Rightarrow> 'v option" where
  "dict_get d k = map_of d k"

text \<open>\<^verbatim>\<open>d[k] = v\<close>: an existing key keeps its place, a new key goes to the end.\<close>

fun dict_set :: "('k, 'v) dict \<Rightarrow> 'k \<Rightarrow> 'v \<Rightarrow> ('k, 'v) dict" where
  "dict_set [] k v = [(k, v)]"
| "dict_set ((k', v') # d) k v =
     (if k' = k then (k, v) # d else (k', v') # dict_set d k v)"

text \<open>\<^verbatim>\<open>del d[k]\<close> on a key that is present.\<close>

definition dict_del :: "('k, 'v) dict \<Rightarrow> 'k \<Rightarrow> ('k, 'v) dict" where
  "dict_del d k = filter (\<lambda>kv. fst kv \<noteq> k) d"

subsection \<open>Data\<close>

type_synonym peer_id = nat
type_synonym address = "string \<times> nat"
type_synonym client = nat
type_synonym command = string

datatype py_error = KeyError | StatisticsError | UnboundLocalError

record log_entry =
  e_term :: int
  e_data :: command

text \<open>
  Modelled from the spec: the snapshot descriptor \<^verbatim>\<open>log.compacted\<close> ("index, term, data,
  count") and the log manager's state, of the class \<^verbatim>\<open>LogManager\<close> that is not among the
  sources.
\<close>

record compactor =
  c_index :: int
  c_term :: int
  c_data :: command
  c_count :: int

record log_manager =
  compacted :: compactor
  entries :: "log_entry list"
  commitIndex :: rat

text \<open>
  The peer messages, one constructor for each value of \<^verbatim>\<open>msg['type']\<close> that a handler
  exists for; the first argument is \<^verbatim>\<open>msg['term']\<close>. The last argument of
  \<open>Append_entries\<close> holds \<^verbatim>\<open>(compact_data, compact_term, compact_count)\<close> when the
  message has the key \<^verbatim>\<open>compact_data\<close>. \<open>Other_peer_msg\<close> is a message of any
  other type.
\<close>

datatype peer_msg =
    Request_vote int peer_id int "int option"
  | Response_vote int bool
  | Append_entries int peer_id rat rat "int option" "log_entry list"
      "(command \<times> int \<times> int) option"
  | Response_append int int
  | Other_peer_msg string int

fun msg_term :: "peer_msg \<Rightarrow> int" where
  "msg_term (Request_vote t candidateId lastLogIndex lastLogTerm) = t"
| "msg_term (Response_vote t voteGranted) = t"
| "msg_term (Append_entries t leader leaderCommit prevLogIndex prevLogTerm es snap) = t"
| "msg_term (Response_append t next_index) = t"
| "msg_term (Other_peer_msg ty t) = t"

datatype client_msg = Append command | Get | Diagnostic | Other_client_msg string

record diagnostic =
  d_status :: string
  d_votedFor :: "peer_id option"
  d_currentTerm :: int
  d_leaderId :: "peer_id option"
  d_Id :: peer_id
  d_log :: log_manager
  d_leaderStatus :: "((peer_id, rat) dict \<times> (int, client list) dict) option"

datatype client_reply =
    Redirect address
  | Result bool
  | State_machine_data command "command list"
  | Diagnostic_reply diagnostic

datatype effect =
    Send_peer peer_id peer_msg
  | Broadcast_peers peer_msg
  | Send_client client client_reply
  | Cancel_election_timer
  | Start_election_timer
  | Cancel_append_timer
  | Start_append_timer

text \<open>
  The role and the attributes that only that role has: \<^verbatim>\<open>votes_count\<close> of a Candidate,
  \<^verbatim>\<open>nextIndex\<close> and \<^verbatim>\<open>waiting_clients\<close> of a Leader.
\<close>

datatype role =
    Follower
  | Candidate int
  | Leader "(peer_id, rat) dict" "(int, client list) dict"

text \<open>
  \<^verbatim>\<open>persist\<close> is \<open>currentTerm\<close> and \<open>votedFor\<close>, \<^verbatim>\<open>volatile\<close> is \<open>leaderId\<close> and
  \<open>node_id\<close> (the key \<^verbatim>\<open>'Id'\<close>), \<open>log_mgr\<close> is \<^verbatim>\<open>self.log\<close>.
\<close>

record node =
  role :: role
  currentTerm :: int
  votedFor :: "peer_id option"
  leaderId :: "peer_id option"
  node_id :: peer_id
  log_mgr :: log_manager
  effects :: "effect list"

datatype outcome = Returned node | Raised py_error node

fun node_of :: "outcome \<Rightarrow> node" where
  "node_of (Returned n) = n"
| "node_of (Raised e n) = n"

text \<open>\<^verbatim>\<open>config.cluster\<close>: the addresses of the peers, this node included.\<close>

record config =
  cluster :: "(peer_id, address) dict"

subsection \<open>The log manager\<close>

text \<open>
  Modelled from the spec: the class \<^verbatim>\<open>LogManager\<close> of \<^verbatim>\<open>zatt/server/log.py\<close> is not among
  the sources. The spec's LogStore gives the contract: the entries are those of the
  positions \<open>compacted.index + 1\<close> to \<open>index\<close>.
\<close>

definition index :: "log_manager \<Rightarrow> int" where
  "index l = c_index (compacted l) + int (length (entries l))"

text \<open>
  Modelled from the spec: the entry of \<^verbatim>\<open>LogManager\<close> at a position, if the log holds
  one there.
\<close>

definition entry_at :: "log_manager \<Rightarrow> rat \<Rightarrow> log_entry option" where
  "entry_at l i =
     (if of_int \<lfloor>i\<rfloor> = i \<and> of_int (c_index (compacted l)) < i \<and> i \<le> of_int (index l)
      then Some (entries l ! nat (\<lfloor>i\<rfloor> - c_index (compacted l) - 1))
      else None)"

text \<open>
  Modelled from the spec: \<^verbatim>\<open>LogManager.term\<close>, "term of entry at i; returns
  compacted.term when i \<open>\<le>\<close> compacted.index, sentinel 0 when i = 0 and no snapshot
  exists". No snapshot is a count of 0. The spec gives no term beyond the last index:
  there the result is \<open>None\<close>.
\<close>

definition log_term :: "log_manager \<Rightarrow> rat \<Rightarrow> int option" where
  "log_term l i =
     (if i = 0 \<and> c_count (compacted l) = 0 then Some 0
      else if i \<le> of_int (c_index (compacted l)) then Some (c_term (compacted l))
      else map_option e_term (entry_at l i))"

text \<open>Modelled from the spec: \<^verbatim>\<open>LogManager.term()\<close>, the argument defaults to \<open>index\<close>.\<close>

definition last_term :: "log_manager \<Rightarrow> int option" where
  "last_term l = log_term l (of_int (index l))"

text \<open>
  Modelled from the spec: the entries of \<^verbatim>\<open>LogManager\<close> with their positions, which the
  spec counts from the one after the snapshot's index.
\<close>

fun number_from :: "int \<Rightarrow> 'a list \<Rightarrow> (int \<times> 'a) list" where
  "number_from i [] = []"
| "number_from i (x # xs) = (i, x) # number_from (i + 1) xs"

text \<open>
  Modelled from the spec: \<^verbatim>\<open>LogManager.__getitem__\<close> on a slice, "entries in the half-open
  range, clamped to available in-memory entries".
\<close>

definition slice :: "log_manager \<Rightarrow> rat \<Rightarrow> rat \<Rightarrow> log_entry list" where
  "slice l lo hi =
     map snd (filter (\<lambda>pe. lo \<le> of_int (fst pe) \<and> of_int (fst pe) < hi)
                (number_from (c_index (compacted l) + 1) (entries l)))"

text \<open>
  Modelled from the spec: the work of \<^verbatim>\<open>LogManager.append_entries\<close> on the incoming
  entries, the first of which is for position \<open>p\<close>. It "truncates any existing entries
  at positions > prev_index that conflict (different term) with the incoming entries,
  then appends all entries whose position exceeds the current index(). Entries already
  present and matching are left untouched".
\<close>

fun merge_entries :: "log_manager \<Rightarrow> log_entry list \<Rightarrow> rat \<Rightarrow> log_manager" where
  "merge_entries l [] p = l"
| "merge_entries l (e # es) p =
     (case entry_at l p of
        Some e' \<Rightarrow>
          (if e_term e' \<noteq> e_term e
           then l\<lparr>entries := take (nat (\<lfloor>p\<rfloor> - c_index (compacted l) - 1)) (entries l) @ e # es\<rparr>
           else merge_entries l es (p + 1))
      | None \<Rightarrow>
          (if of_int (index l) < p then l\<lparr>entries := entries l @ e # es\<rparr>
           else merge_entries l es (p + 1)))"

text \<open>
  Modelled from the spec: \<^verbatim>\<open>LogManager.append_entries(entries, prev_index)\<close>; the
  incoming entries take the positions after \<open>prev_index\<close>, one by one.
\<close>

definition append_entries :: "log_manager \<Rightarrow> log_entry list \<Rightarrow> rat \<Rightarrow> log_manager" where
  "append_entries l es prev_index = merge_entries l es (prev_index + 1)"

text \<open>
  Modelled from the spec: \<^verbatim>\<open>LogManager.commit\<close>, "sets commitIndex = min(max(commitIndex,
  new_commit), index())". The state machine is not stored: its value is what
  \<open>state_machine_data\<close> reads off the log.
\<close>

definition commit :: "log_manager \<Rightarrow> rat \<Rightarrow> log_manager" where
  "commit l new_commit =
     l\<lparr>commitIndex := min (max (commitIndex l) new_commit) (of_int (index l))\<rparr>"

text \<open>
  Modelled from the spec: the constructor \<^verbatim>\<open>LogManager(compact_count, compact_term,
  compact_data)\<close>, a log that holds the snapshot and no entry. The snapshot replaces
  \<open>count\<close> entries, its index is the position of the last of them, and the commit index
  is the snapshot's index.
\<close>

definition LogManager :: "int \<Rightarrow> int \<Rightarrow> command \<Rightarrow> log_manager" where
  "LogManager compact_count compact_term compact_data =
     \<lparr>compacted = \<lparr>c_index = compact_count, c_term = compact_term,
                    c_data = compact_data, c_count = compact_count\<rparr>,
      entries = [],
      commitIndex = of_int compact_count\<rparr>"

text \<open>
  Modelled from the spec: \<^verbatim>\<open>self.log.state_machine.data\<close>. The state machine is outside
  the sources and the spec; its value is given as the snapshot's data and the commands of
  the committed entries, in the order they were applied.
\<close>

definition state_machine_data :: "log_manager \<Rightarrow> client_reply" where
  "state_machine_data l =
     State_machine_data (c_data (compacted l))
       (map e_data (slice l (of_int (c_index (compacted l)) + 1) (commitIndex l + 1)))"

subsection \<open>The orchestrator's sends and the timers\<close>

text \<open>
  Modelled from the spec: \<^verbatim>\<open>orchestrator.send_peer\<close> is not among the sources; it is to
  "delegate to the transport, fire-and-forget".
\<close>

definition send_peer :: "node \<Rightarrow> peer_id \<Rightarrow> peer_msg \<Rightarrow> node" where
  "send_peer n peer m = n\<lparr>effects := effects n @ [Send_peer peer m]\<rparr>"

text \<open>
  Modelled from the spec: \<^verbatim>\<open>orchestrator.broadcast_peers\<close>, not among the sources
  either, delegates to the transport in the same way.
\<close>

definition broadcast_peers :: "node \<Rightarrow> peer_msg \<Rightarrow> node" where
  "broadcast_peers n m = n\<lparr>effects := effects n @ [Broadcast_peers m]\<rparr>"

text \<open>
  Modelled from the spec: \<^verbatim>\<open>protocol.send\<close>, the transport's send to a client, which
  the spec keeps outside the core.
\<close>

definition send_client :: "node \<Rightarrow> client \<Rightarrow> client_reply \<Rightarrow> node" where
  "send_client n c r = n\<lparr>effects := effects n @ [Send_client c r]\<rparr>"

text \<open>
  \<^verbatim>\<open>Follower.restart_election_timer\<close>: the timer is cancelled when the object has one
  (\<^verbatim>\<open>hasattr(self, 'election_timer')\<close>, false only inside \<^verbatim>\<open>__init__\<close>) and a new one is
  set. The random timeout is not part of the model.
\<close>

definition restart_election_timer :: "bool \<Rightarrow> node \<Rightarrow> node" where
  "restart_election_timer has_timer n =
     n\<lparr>effects := effects n @ (if has_timer then [Cancel_election_timer] else [])
                     @ [Start_election_timer]\<rparr>"

text \<open>\<^verbatim>\<open>Follower.teardown\<close> (which a Candidate inherits) and \<^verbatim>\<open>Leader.teardown\<close>.\<close>

definition teardown :: "node \<Rightarrow> node" where
  "teardown n =
     (case role n of
        Leader nextIndex waiting_clients \<Rightarrow> n\<lparr>effects := effects n @ [Cancel_append_timer]\<rparr>
      | _ \<Rightarrow> n\<lparr>effects := effects n @ [Cancel_election_timer]\<rparr>)"

subsection \<open>Follower\<close>

text \<open>
  \<^verbatim>\<open>Follower.__init__\<close> with an \<^verbatim>\<open>old_state\<close>: \<^verbatim>\<open>State.__init__\<close> takes over the
  orchestrator, \<^verbatim>\<open>persist\<close>, \<^verbatim>\<open>volatile\<close> and \<^verbatim>\<open>log\<close> of the old state.
\<close>

definition Follower_init :: "node \<Rightarrow> node" where
  "Follower_init old_state =
     restart_election_timer False (old_state\<lparr>role := Follower, votedFor := None\<rparr>)"

definition on_peer_request_vote :: "node \<Rightarrow> peer_id \<Rightarrow> int \<Rightarrow> peer_id \<Rightarrow> int \<Rightarrow> node" where
  "on_peer_request_vote n peer t candidateId lastLogIndex =
     (let n1 = restart_election_timer True n;
          term_is_current = (t \<ge> currentTerm n1);
          can_vote = (votedFor n1 \<in> {None, Some candidateId});
          index_is_current = (lastLogIndex \<ge> index (log_mgr n1));
          granted = (term_is_current \<and> can_vote \<and> index_is_current);
          n2 = (if granted then n1\<lparr>votedFor := Some candidateId\<rparr> else n1)
      in send_peer n2 peer (Response_vote (currentTerm n2) granted))"

text \<open>
  The two local variables of \<^verbatim>\<open>Follower.on_peer_append_entries\<close>. Python's \<^verbatim>\<open>or\<close> does
  not call \<^verbatim>\<open>self.log.term\<close> when \<^verbatim>\<open>msg['prevLogTerm']\<close> is \<^verbatim>\<open>None\<close>.
\<close>

definition prev_log_term_match :: "node \<Rightarrow> rat \<Rightarrow> int option \<Rightarrow> bool" where
  "prev_log_term_match n prevLogIndex prevLogTerm =
     (prevLogTerm = None \<or> log_term (log_mgr n) prevLogIndex = prevLogTerm)"

definition success :: "node \<Rightarrow> int \<Rightarrow> rat \<Rightarrow> int option \<Rightarrow> bool" where
  "success n t prevLogIndex prevLogTerm =
     (t \<ge> currentTerm n \<and> prev_log_term_match n prevLogIndex prevLogTerm)"

definition Follower_on_peer_append_entries ::
  "node \<Rightarrow> peer_id \<Rightarrow> int \<Rightarrow> peer_id \<Rightarrow> rat \<Rightarrow> rat \<Rightarrow> int option \<Rightarrow> log_entry list
     \<Rightarrow> (command \<times> int \<times> int) option \<Rightarrow> node" where
  "Follower_on_peer_append_entries n peer t leader leaderCommit prevLogIndex prevLogTerm es snap =
     (let n1 = restart_election_timer True n;
          n2 = (case snap of
                  Some (compact_data, compact_term, compact_count) \<Rightarrow>
                    n1\<lparr>log_mgr := LogManager compact_count compact_term compact_data,
                       leaderId := Some leader\<rparr>
                | None \<Rightarrow>
                    if success n1 t prevLogIndex prevLogTerm
                    then n1\<lparr>log_mgr := commit (append_entries (log_mgr n1) es prevLogIndex)
                                           leaderCommit,
                            leaderId := Some leader\<rparr>
                    else n1)
      in send_peer n2 peer (Response_append (currentTerm n2) (index (log_mgr n2) + 1)))"

subsection \<open>Candidate\<close>

definition send_vote_requests :: "node \<Rightarrow> node" where
  "send_vote_requests n =
     broadcast_peers n
       (Request_vote (currentTerm n) (node_id n) (index (log_mgr n)) (last_term (log_mgr n)))"

definition Candidate_init :: "node \<Rightarrow> node" where
  "Candidate_init old_state =
     (let n1 = Follower_init old_state;
          n2 = n1\<lparr>currentTerm := currentTerm n1 + 1\<rparr>;
          n3 = n2\<lparr>votedFor := Some (node_id n2)\<rparr>;
          n4 = n3\<lparr>role := Candidate 1\<rparr>
      in send_vote_requests n4)"

subsection \<open>Leader\<close>

definition append_entries_msg :: "node \<Rightarrow> rat \<Rightarrow> peer_msg" where
  "append_entries_msg n next =
     Append_entries (currentTerm n) (node_id n) (commitIndex (log_mgr n)) (next - 1)
       (log_term (log_mgr n) (next - 1))
       (slice (log_mgr n) next (next + 2))
       (if next \<le> of_int (c_index (compacted (log_mgr n)))
        then Some (c_data (compacted (log_mgr n)), c_term (compacted (log_mgr n)),
                   c_count (compacted (log_mgr n)))
        else None)"

text \<open>The loop of \<^verbatim>\<open>Leader.send_append_entries\<close> over the keys of \<^verbatim>\<open>config.cluster\<close>.\<close>

fun send_append_loop :: "(peer_id, rat) dict \<Rightarrow> peer_id list \<Rightarrow> node \<Rightarrow> outcome" where
  "send_append_loop nextIndex [] n = Returned n"
| "send_append_loop nextIndex (peer # peers) n =
     (if peer = node_id n then send_append_loop nextIndex peers n
      else (case dict_get nextIndex peer of
              None \<Rightarrow> Raised KeyError n
            | Some next \<Rightarrow>
                send_append_loop nextIndex peers (send_peer n peer (append_entries_msg n next))))"

definition send_append_entries :: "config \<Rightarrow> (peer_id, rat) dict \<Rightarrow> node \<Rightarrow> outcome" where
  "send_append_entries cfg nextIndex n =
     (case send_append_loop nextIndex (dict_keys (cluster cfg)) n of
        Returned n1 \<Rightarrow> Returned (n1\<lparr>effects := effects n1 @ [Start_append_timer]\<rparr>)
      | Raised e n1 \<Rightarrow> Raised e n1)"

text \<open>
  \<^verbatim>\<open>Leader.__init__\<close> with an \<^verbatim>\<open>old_state\<close>. The object is the node's state only once the
  constructor has returned.
\<close>

definition Leader_init :: "config \<Rightarrow> node \<Rightarrow> outcome" where
  "Leader_init cfg old_state =
     (let n1 = old_state\<lparr>leaderId := Some (node_id old_state)\<rparr>;
          nextIndex = map (\<lambda>x. (x, commitIndex (log_mgr n1) + 1)) (dict_keys (cluster cfg))
      in case send_append_entries cfg nextIndex n1 of
           Returned n2 \<Rightarrow> Returned (n2\<lparr>role := Leader nextIndex []\<rparr>)
         | Raised e n2 \<Rightarrow> Raised e n2)"

text \<open>
  \<^verbatim>\<open>statistics.median\<close> of the standard library: the middle value of the sorted data,
  the mean of the two middle values when their number is even. For an odd number of
  values this is the library's result on all data. For an even number the library
  returns the float nearest to the mean, which is the mean itself on data that are
  \<open>float_exact\<close>; on larger data the float is rounded and this definition does not
  follow it.
\<close>

definition median :: "rat list \<Rightarrow> py_error + rat" where
  "median xs =
     (let data = sort xs; n = length data
      in if n = 0 then Inl StatisticsError
         else if n mod 2 = 1 then Inr (data ! (n div 2))
         else Inr ((data ! (n div 2 - 1) + data ! (n div 2)) / 2))"

text \<open>
  Data on which the floats of \<^verbatim>\<open>statistics.median(...) - 1\<close> are exact: whole numbers
  below \<open>2 ^ 52\<close> in absolute value. The sum of two of them is a whole number below
  \<open>2 ^ 53\<close>, so its half, and the half minus one, are floats.
\<close>

definition float_exact :: "rat list \<Rightarrow> bool" where
  "float_exact xs = list_all (\<lambda>x. of_int \<lfloor>x\<rfloor> = x \<and> \<bar>x\<bar> < 2 ^ 52) xs"

text \<open>
  The first loop of \<^verbatim>\<open>Leader.send_client_append_response\<close>: what is sent, and
  \<^verbatim>\<open>to_delete\<close>.
\<close>

fun answer_clients :: "rat \<Rightarrow> (int, client list) dict \<Rightarrow> effect list \<times> int list" where
  "answer_clients ci [] = ([], [])"
| "answer_clients ci ((client_index, clients) # waiting_clients) =
     (let (sent, to_delete) = answer_clients ci waiting_clients
      in if of_int client_index \<ge> ci
         then (map (\<lambda>c. Send_client c (Result True)) clients @ sent, client_index # to_delete)
         else (sent, to_delete))"

text \<open>
  The second loop, \<^verbatim>\<open>for index in to_delete: del self.waiting_clients[client_index]\<close>.
  \<^verbatim>\<open>client_index\<close> is the variable of the first loop: the last key of the dictionary, and
  unbound when the dictionary is empty.
\<close>

fun delete_answered ::
  "int option \<Rightarrow> int list \<Rightarrow> (int, client list) dict \<Rightarrow> py_error option \<times> (int, client list) dict" where
  "delete_answered client_index [] waiting_clients = (None, waiting_clients)"
| "delete_answered client_index (i # to_delete) waiting_clients =
     (case client_index of
        None \<Rightarrow> (Some UnboundLocalError, waiting_clients)
      | Some k \<Rightarrow>
          if k \<in> set (dict_keys waiting_clients)
          then delete_answered client_index to_delete (dict_del waiting_clients k)
          else (Some KeyError, waiting_clients))"

definition send_client_append_response ::
  "(peer_id, rat) dict \<Rightarrow> (int, client list) dict \<Rightarrow> node \<Rightarrow> outcome" where
  "send_client_append_response nextIndex waiting_clients n =
     (let (sent, to_delete) = answer_clients (commitIndex (log_mgr n)) waiting_clients;
          n1 = n\<lparr>effects := effects n @ sent\<rparr>;
          client_index = (if waiting_clients = [] then None
                          else Some (fst (last waiting_clients)))
      in case delete_answered client_index to_delete waiting_clients of
           (None, wc) \<Rightarrow> Returned (n1\<lparr>role := Leader nextIndex wc\<rparr>)
         | (Some e, wc) \<Rightarrow> Raised e (n1\<lparr>role := Leader nextIndex wc\<rparr>))"

definition on_peer_response_append ::
  "node \<Rightarrow> (peer_id, rat) dict \<Rightarrow> (int, client list) dict \<Rightarrow> peer_id \<Rightarrow> int \<Rightarrow> outcome" where
  "on_peer_response_append n nextIndex waiting_clients peer next_index =
     (let ni1 = dict_set nextIndex peer (of_int next_index);
          ni2 = dict_set ni1 (node_id n) (of_int (index (log_mgr n)) + 1);
          n1 = n\<lparr>role := Leader ni2 waiting_clients\<rparr>
      in case median (dict_values ni2) of
           Inl e \<Rightarrow> Raised e n1
         | Inr m \<Rightarrow>
             send_client_append_response ni2 waiting_clients
               (n1\<lparr>log_mgr := commit (log_mgr n1) (m - 1)\<rparr>))"

definition Leader_on_client_append ::
  "node \<Rightarrow> (peer_id, rat) dict \<Rightarrow> (int, client list) dict \<Rightarrow> client \<Rightarrow> command \<Rightarrow> node" where
  "Leader_on_client_append n nextIndex waiting_clients protocol d =
     (let entry = \<lparr>e_term = currentTerm n, e_data = d\<rparr>;
          l = append_entries (log_mgr n) [entry] (of_int (index (log_mgr n)));
          wc = (case dict_get waiting_clients (index l) of
                  Some clients \<Rightarrow> dict_set waiting_clients (index l) (clients @ [protocol])
                | None \<Rightarrow> dict_set waiting_clients (index l) [protocol])
      in n\<lparr>log_mgr := l, role := Leader nextIndex wc\<rparr>)"

subsection \<open>Changing the role\<close>

datatype role_kind = Follower_kind | Candidate_kind | Leader_kind

text \<open>
  Modelled from the spec: \<^verbatim>\<open>orchestrator.change_state\<close> is not among the sources. It is to
  "call teardown() on the current role (cancel timers), construct the new role adopting the
  prior role's PersistentCell, volatile state, and LogStore by reference, and install it".
\<close>

definition change_state :: "config \<Rightarrow> role_kind \<Rightarrow> node \<Rightarrow> outcome" where
  "change_state cfg kind n =
     (let old_state = teardown n
      in case kind of
           Follower_kind \<Rightarrow> Returned (Follower_init old_state)
         | Candidate_kind \<Rightarrow> Returned (Candidate_init old_state)
         | Leader_kind \<Rightarrow> Leader_init cfg old_state)"

text \<open>\<^verbatim>\<open>Candidate.on_peer_append_entries\<close> and \<^verbatim>\<open>Candidate.on_peer_response_vote\<close>.\<close>

definition Candidate_on_peer_append_entries ::
  "config \<Rightarrow> node \<Rightarrow> peer_id \<Rightarrow> int \<Rightarrow> peer_id \<Rightarrow> rat \<Rightarrow> rat \<Rightarrow> int option \<Rightarrow> log_entry list
     \<Rightarrow> (command \<times> int \<times> int) option \<Rightarrow> outcome" where
  "Candidate_on_peer_append_entries cfg n peer t leader leaderCommit prevLogIndex prevLogTerm es snap =
     (case change_state cfg Follower_kind n of
        Returned n1 \<Rightarrow>
          Returned (Follower_on_peer_append_entries n1 peer t leader leaderCommit
                      prevLogIndex prevLogTerm es snap)
      | Raised e n1 \<Rightarrow> Raised e n1)"

definition on_peer_response_vote :: "config \<Rightarrow> node \<Rightarrow> int \<Rightarrow> peer_id \<Rightarrow> bool \<Rightarrow> outcome" where
  "on_peer_response_vote cfg n votes_count peer voteGranted =
     (let votes = votes_count + (if voteGranted then 1 else 0);
          n1 = n\<lparr>role := Candidate votes\<rparr>
      in if (of_int votes :: rat) > of_nat (length (cluster cfg)) / 2
         then change_state cfg Leader_kind n1
         else Returned n1)"

subsection \<open>The handlers of the base class\<close>

text \<open>
  \<^verbatim>\<open>config.cluster[self.volatile['leaderId']]\<close>: the keys of the cluster are peer
  identifiers, so \<^verbatim>\<open>None\<close> is not among them and the subscript raises \<^verbatim>\<open>KeyError\<close>, as it
  does for an identifier that is no peer's.
\<close>

definition State_on_client_append :: "config \<Rightarrow> node \<Rightarrow> client \<Rightarrow> outcome" where
  "State_on_client_append cfg n protocol =
     (case leaderId n of
        None \<Rightarrow> Raised KeyError n
      | Some leader \<Rightarrow>
          (case dict_get (cluster cfg) leader of
             None \<Rightarrow> Raised KeyError n
           | Some addr \<Rightarrow> Returned (send_client n protocol (Redirect addr))))"

definition on_client_get :: "node \<Rightarrow> client \<Rightarrow> node" where
  "on_client_get n protocol = send_client n protocol (state_machine_data (log_mgr n))"

text \<open>
  \<^verbatim>\<open>State.on_client_diagnostic\<close>. The reply's \<^verbatim>\<open>files\<close>, read from the storage directory,
  are not part of the model.
\<close>

definition on_client_diagnostic :: "node \<Rightarrow> client \<Rightarrow> node" where
  "on_client_diagnostic n protocol =
     send_client n protocol
       (Diagnostic_reply
          \<lparr>d_status = (case role n of Follower \<Rightarrow> ''Follower''
                        | Candidate votes_count \<Rightarrow> ''Candidate''
                        | Leader nextIndex waiting_clients \<Rightarrow> ''Leader''),
           d_votedFor = votedFor n,
           d_currentTerm = currentTerm n,
           d_leaderId = leaderId n,
           d_Id = node_id n,
           d_log = log_mgr n,
           d_leaderStatus = (case role n of
                               Leader nextIndex waiting_clients \<Rightarrow>
                                 Some (nextIndex, waiting_clients)
                             | _ \<Rightarrow> None)\<rparr>)"

text \<open>
  \<^verbatim>\<open>State.data_received_client\<close>: \<^verbatim>\<open>getattr(self, 'on_client_' + msg['type'], None)\<close> finds
  the Leader's own \<^verbatim>\<open>on_client_append\<close> on a Leader and the base class's on the other
  roles; a message of another type is logged and dropped.
\<close>

definition data_received_client :: "config \<Rightarrow> node \<Rightarrow> client \<Rightarrow> client_msg \<Rightarrow> outcome" where
  "data_received_client cfg n protocol m =
     (case m of
        Append d \<Rightarrow>
          (case role n of
             Leader nextIndex waiting_clients \<Rightarrow>
               Returned (Leader_on_client_append n nextIndex waiting_clients protocol d)
           | _ \<Rightarrow> State_on_client_append cfg n protocol)
      | Get \<Rightarrow> Returned (on_client_get n protocol)
      | Diagnostic \<Rightarrow> Returned (on_client_diagnostic n protocol)
      | Other_client_msg ty \<Rightarrow> Returned n)"

text \<open>
  The \<^verbatim>\<open>else\<close> branch of \<^verbatim>\<open>State.data_received_peer\<close>:
  \<^verbatim>\<open>getattr(self, 'on_peer_' + msg['type'], None)\<close> on the class of the role. A Follower has
  \<^verbatim>\<open>on_peer_request_vote\<close> and \<^verbatim>\<open>on_peer_append_entries\<close>; a Candidate inherits the first,
  overrides the second and adds \<^verbatim>\<open>on_peer_response_vote\<close>; a Leader has
  \<^verbatim>\<open>on_peer_response_append\<close> only. Where there is no method the message is logged and
  dropped.
\<close>

definition on_peer :: "config \<Rightarrow> node \<Rightarrow> peer_id \<Rightarrow> peer_msg \<Rightarrow> outcome" where
  "on_peer cfg n peer m =
     (case role n of
        Follower \<Rightarrow>
          (case m of
             Request_vote t candidateId lastLogIndex lastLogTerm \<Rightarrow>
               Returned (on_peer_request_vote n peer t candidateId lastLogIndex)
           | Append_entries t leader leaderCommit prevLogIndex prevLogTerm es snap \<Rightarrow>
               Returned (Follower_on_peer_append_entries n peer t leader leaderCommit
                           prevLogIndex prevLogTerm es snap)
           | _ \<Rightarrow> Returned n)
      | Candidate votes_count \<Rightarrow>
          (case m of
             Request_vote t candidateId lastLogIndex lastLogTerm \<Rightarrow>
               Returned (on_peer_request_vote n peer t candidateId lastLogIndex)
           | Append_entries t leader leaderCommit prevLogIndex prevLogTerm es snap \<Rightarrow>
               Candidate_on_peer_append_entries cfg n peer t leader leaderCommit
                 prevLogIndex prevLogTerm es snap
           | Response_vote t voteGranted \<Rightarrow>
               on_peer_response_vote cfg n votes_count peer voteGranted
           | _ \<Rightarrow> Returned n)
      | Leader nextIndex waiting_clients \<Rightarrow>
          (case m of
             Response_append t next_index \<Rightarrow>
               on_peer_response_append n nextIndex waiting_clients peer next_index
           | _ \<Rightarrow> Returned n))"

text \<open>
  \<^verbatim>\<open>State.data_received_peer\<close>. The \<^verbatim>\<open>else\<close> belongs to the outer \<^verbatim>\<open>if\<close>: a node
  that finds a higher term and is a Follower falls out of the \<^verbatim>\<open>if\<close> and returns.
\<close>

function data_received_peer :: "config \<Rightarrow> node \<Rightarrow> peer_id \<Rightarrow> peer_msg \<Rightarrow> outcome" where
  "data_received_peer cfg n peer m =
     (if msg_term m > currentTerm n
      then (let n1 = n\<lparr>currentTerm := msg_term m\<rparr>
            in if role n1 \<noteq> Follower
               then (case change_state cfg Follower_kind n1 of
                       Returned n2 \<Rightarrow> data_received_peer cfg n2 peer m
                     | Raised e n2 \<Rightarrow> Raised e n2)
               else Returned n1)
      else on_peer cfg n peer m)"
  by pat_completeness auto

termination
  by (relation "measure (\<lambda>(cfg, n, peer, m). if msg_term m > currentTerm n then 1 else 0)")
    (auto simp: change_state_def Follower_init_def teardown_def restart_election_timer_def
          split: role.splits)

declare data_received_peer.simps [simp del]

subsection \<open>A cluster of three and some of its nodes\<close>

definition example_cluster :: config where
  "example_cluster =
     \<lparr>cluster = [(1, (''10.0.0.1'', 5254)), (2, (''10.0.0.2'', 5254)), (3, (''10.0.0.3'', 5254))]\<rparr>"

definition empty_log :: log_manager where
  "empty_log =
     \<lparr>compacted = \<lparr>c_index = 0, c_term = 0, c_data = [], c_count = 0\<rparr>,
      entries = [], commitIndex = 0\<rparr>"

definition two_entry_log :: log_manager where
  "two_entry_log =
     \<lparr>compacted = \<lparr>c_index = 0, c_term = 0, c_data = [], c_count = 0\<rparr>,
      entries = [\<lparr>e_term = 1, e_data = ''x''\<rparr>, \<lparr>e_term = 1, e_data = ''y''\<rparr>],
      commitIndex = 0\<rparr>"

text \<open>Node 1 as a Follower of term 1 that has voted for node 2.\<close>

definition example_follower :: node where
  "example_follower =
     \<lparr>role = Follower, currentTerm = 1, votedFor = Some 2, leaderId = None, node_id = 1,
      log_mgr = empty_log, effects = []\<rparr>"

text \<open>The same Follower, five terms on.\<close>

definition stale_follower :: node where
  "stale_follower = example_follower\<lparr>currentTerm := 5\<rparr>"

text \<open>Node 1 as a Candidate of term 2, with its own vote.\<close>

definition example_candidate :: node where
  "example_candidate =
     \<lparr>role = Candidate 1, currentTerm = 2, votedFor = Some 1, leaderId = None, node_id = 1,
      log_mgr = empty_log, effects = []\<rparr>"

text \<open>
  Node 1 as the Leader of term 1: two entries, none committed, client 7 waiting for the
  first and client 8 for the second.
\<close>

definition example_leader :: node where
  "example_leader =
     \<lparr>role = Leader [(1, 1), (2, 1), (3, 1)] [(1, [7]), (2, [8])],
      currentTerm = 1, votedFor = Some 1, leaderId = Some 1, node_id = 1,
      log_mgr = two_entry_log, effects = []\<rparr>"

text \<open>
  The Leader once node 2 has both entries and the commit index is 2: client 7 waits for
  entry 1, which is committed.
\<close>

definition committed_leader :: node where
  "committed_leader =
     \<lparr>role = Leader [(1, 3), (2, 3), (3, 1)] [(1, [7])],
      currentTerm = 1, votedFor = Some 1, leaderId = Some 1, node_id = 1,
      log_mgr = two_entry_log\<lparr>commitIndex := 2\<rparr>, effects = []\<rparr>"

section \<open>Properties\<close>

subsection \<open>Dictionaries and the median\<close>

lemma median_not_raised: "xs \<noteq> [] \<Longrightarrow> median xs \<noteq> Inl e"
  by (auto simp: median_def Let_def dest: arg_cong [where f = length])

lemma dict_set_nonempty: "dict_set d k v \<noteq> []"
  by (cases d) (auto split: if_splits)

lemma dict_get_dict_set:
  "dict_get (dict_set d k v) k' = (if k' = k then Some v else dict_get d k')"
  by (induction d) (auto simp: dict_get_def)

lemma dict_get_const_map: "p \<in> set ks \<Longrightarrow> dict_get (map (\<lambda>x. (x, c)) ks) p = Some c"
  by (induction ks) (auto simp: dict_get_def)

subsection \<open>Becoming Leader does not raise\<close>

text \<open>
  \<^verbatim>\<open>self.nextIndex[peer_id]\<close> in \<^verbatim>\<open>send_append_entries\<close> finds every peer of the cluster,
  since \<^verbatim>\<open>nextIndex\<close> was built from the cluster's keys: the loop only adds effects.
\<close>

lemma send_append_loop_returns:
  "\<forall>p \<in> set peers. p \<noteq> node_id n \<longrightarrow> dict_get ni p \<noteq> None \<Longrightarrow>
   \<exists>sent. send_append_loop ni peers n = Returned (n\<lparr>effects := sent\<rparr>)"
proof (induction peers arbitrary: n)
  case Nil
  have "n = n\<lparr>effects := effects n\<rparr>" by simp
  then show ?case by (metis send_append_loop.simps(1))
next
  case (Cons p peers)
  show ?case
  proof (cases "p = node_id n")
    case True
    then show ?thesis using Cons by simp
  next
    case False
    then obtain nx where nx: "dict_get ni p = Some nx" using Cons.prems by auto
    let ?n1 = "send_peer n p (append_entries_msg n nx)"
    have "\<forall>q \<in> set peers. q \<noteq> node_id ?n1 \<longrightarrow> dict_get ni q \<noteq> None"
      using Cons.prems by (simp add: send_peer_def)
    from Cons.IH [OF this] obtain sent where
      "send_append_loop ni peers ?n1 = Returned (?n1\<lparr>effects := sent\<rparr>)"
      by blast
    then have "send_append_loop ni (p # peers) n = Returned (n\<lparr>effects := sent\<rparr>)"
      using False nx by (simp add: send_peer_def)
    then show ?thesis by blast
  qed
qed

lemma Leader_init_returns:
  "\<exists>sent. Leader_init cfg old =
     Returned (old\<lparr>role := Leader (map (\<lambda>x. (x, commitIndex (log_mgr old) + 1))
                                    (dict_keys (cluster cfg))) [],
                   leaderId := Some (node_id old), effects := sent\<rparr>)"
proof -
  let ?n1 = "old\<lparr>leaderId := Some (node_id old)\<rparr>"
  let ?ni = "map (\<lambda>x. (x, commitIndex (log_mgr old) + 1)) (dict_keys (cluster cfg))"
  have "\<forall>p \<in> set (dict_keys (cluster cfg)). p \<noteq> node_id ?n1 \<longrightarrow> dict_get ?ni p \<noteq> None"
    by (simp add: dict_get_const_map)
  from send_append_loop_returns [OF this] obtain sent where
    "send_append_loop ?ni (dict_keys (cluster cfg)) ?n1 = Returned (?n1\<lparr>effects := sent\<rparr>)"
    by blast
  then have "Leader_init cfg old =
     Returned (old\<lparr>role := Leader ?ni [], leaderId := Some (node_id old),
                   effects := sent @ [Start_append_timer]\<rparr>)"
    by (simp add: Leader_init_def send_append_entries_def Let_def)
  then show ?thesis by blast
qed

lemma change_state_Leader_returns:
  "\<exists>n' nextIndex. change_state cfg Leader_kind n = Returned n' \<and> role n' = Leader nextIndex []"
proof -
  from Leader_init_returns [of cfg "teardown n"] obtain sent where
    "Leader_init cfg (teardown n) =
       Returned ((teardown n)\<lparr>role := Leader (map (\<lambda>x. (x, commitIndex (log_mgr (teardown n)) + 1))
                                    (dict_keys (cluster cfg))) [],
                  leaderId := Some (node_id (teardown n)), effects := sent\<rparr>)"
    by blast
  then show ?thesis by (simp add: change_state_def Let_def)
qed

subsection \<open>What notifying the clients leaves alone\<close>

lemma send_client_append_response_frame:
  "\<exists>wc. role (node_of (send_client_append_response ni waiting n)) = Leader ni wc"
  "log_mgr (node_of (send_client_append_response ni waiting n)) = log_mgr n"
  "currentTerm (node_of (send_client_append_response ni waiting n)) = currentTerm n"
  by (auto simp: send_client_append_response_def Let_def split: prod.splits option.splits)

subsection \<open>The term-bump rule\<close>

text \<open>
  A Candidate or a Leader that receives a higher term: \<^verbatim>\<open>change_state(Follower)\<close> builds a
  Follower of the message's term with no vote, and the second pass through
  \<^verbatim>\<open>data_received_peer\<close>, now with equal terms, calls the Follower's handler for the
  message.
\<close>

lemma term_bump_redispatch:
  assumes "role n \<noteq> Follower" and "msg_term m > currentTerm n"
  shows "data_received_peer cfg n peer m =
           on_peer cfg (Follower_init (teardown (n\<lparr>currentTerm := msg_term m\<rparr>))) peer m"
    and "role (Follower_init (teardown (n\<lparr>currentTerm := msg_term m\<rparr>))) = Follower"
    and "currentTerm (Follower_init (teardown (n\<lparr>currentTerm := msg_term m\<rparr>))) = msg_term m"
    and "votedFor (Follower_init (teardown (n\<lparr>currentTerm := msg_term m\<rparr>))) = None"
proof -
  let ?n2 = "Follower_init (teardown (n\<lparr>currentTerm := msg_term m\<rparr>))"
  show r: "role ?n2 = Follower" and t: "currentTerm ?n2 = msg_term m" and "votedFor ?n2 = None"
    by (simp_all add: Follower_init_def teardown_def restart_election_timer_def split: role.splits)
  have "data_received_peer cfg n peer m = data_received_peer cfg ?n2 peer m"
    using assms by (subst data_received_peer.simps) (simp add: change_state_def Let_def)
  also have "\<dots> = on_peer cfg ?n2 peer m"
    using t by (subst data_received_peer.simps) simp
  finally show "data_received_peer cfg n peer m = on_peer cfg ?n2 peer m" .
qed

text \<open>
  C1. The rule as the claim has it, "sets currentTerm = msg.term, clears votedFor", does
  not hold of a node that is a Follower already: the Follower of term 1 that voted for
  node 2 receives \<^verbatim>\<open>request_vote\<close> of term 2 from node 3, and is left with term 2, its vote
  for node 2 and nothing sent.
\<close>

theorem follower_term_bump_keeps_vote:
  "role example_follower = Follower \<and>
   currentTerm example_follower = 1 \<and>
   votedFor example_follower = Some 2 \<and>
   data_received_peer example_cluster example_follower 3 (Request_vote 2 3 0 (Some 0)) =
     Returned (example_follower\<lparr>currentTerm := 2\<rparr>) \<and>
   votedFor (node_of (data_received_peer example_cluster example_follower 3
                        (Request_vote 2 3 0 (Some 0)))) = Some 2 \<and>
   effects (node_of (data_received_peer example_cluster example_follower 3
                        (Request_vote 2 3 0 (Some 0)))) = []"
  by (subst data_received_peer.simps, subst data_received_peer.simps,
      subst data_received_peer.simps) (simp add: example_follower_def)

text \<open>
  C2. \<^verbatim>\<open>send_client_append_response\<close> on the Leader whose commit index is 2 and whose
  client 7 waits for entry 1: the test \<^verbatim>\<open>client_index >= self.log.commitIndex\<close> fails, so
  nothing is sent and the entry stays, where the claim has the client answered and the
  entry removed.
\<close>

theorem committed_client_not_answered:
  "commitIndex (log_mgr committed_leader) = 2 \<and>
   send_client_append_response [(1, 3), (2, 3), (3, 1)] [(1, [7])] committed_leader =
     Returned committed_leader"
  by (simp add: committed_leader_def two_entry_log_def send_client_append_response_def
      dict_keys_def dict_del_def)

subsection \<open>Requests of a stale term\<close>

text \<open>
  C3, as the claim has it, fails in three places. A Follower takes a snapshot from an
  \<^verbatim>\<open>append_entries\<close> of term 3 while its own term is 5: the branch on \<^verbatim>\<open>compact_data\<close>
  comes before the test of \<^verbatim>\<open>success\<close>, so the log is replaced and \<^verbatim>\<open>leaderId\<close> is set. A
  Leader has no handler for a request and sends no reply. A Candidate becomes a Follower
  on any \<^verbatim>\<open>append_entries\<close>, which clears its vote.
\<close>

theorem stale_term_counterexample:
  "3 < currentTerm stale_follower \<and> leaderId stale_follower = None \<and>
   leaderId (node_of (data_received_peer example_cluster stale_follower 2
      (Append_entries 3 2 0 0 (Some 0) [] (Some (''s'', 1, 4))))) = Some 2 \<and>
   log_mgr (node_of (data_received_peer example_cluster stale_follower 2
      (Append_entries 3 2 0 0 (Some 0) [] (Some (''s'', 1, 4))))) \<noteq> log_mgr stale_follower \<and>
   0 < currentTerm example_leader \<and>
   data_received_peer example_cluster example_leader 2 (Request_vote 0 2 0 (Some 0)) =
     Returned example_leader \<and>
   0 < currentTerm example_candidate \<and> votedFor example_candidate = Some 1 \<and>
   votedFor (node_of (data_received_peer example_cluster example_candidate 2
      (Append_entries 0 2 0 0 (Some 0) [] None))) = None"
  by (subst data_received_peer.simps, subst data_received_peer.simps,
      subst data_received_peer.simps, subst data_received_peer.simps)
    (simp add: stale_follower_def example_follower_def example_leader_def example_candidate_def
      empty_log_def on_peer_def Follower_on_peer_append_entries_def
      Candidate_on_peer_append_entries_def change_state_def teardown_def Follower_init_def
      restart_election_timer_def send_peer_def LogManager_def Let_def)

text \<open>
  C3, amended. A \<^verbatim>\<open>request_vote\<close> of a term below \<open>currentTerm\<close> that reaches a Follower
  or a Candidate, and an \<^verbatim>\<open>append_entries\<close> of such a term without snapshot fields that
  reaches a Follower, is answered with the receiver's current term (a vote not granted;
  \<open>next_index\<close> one past the receiver's log), and the node is as it was but for the
  election timer's restart and the reply: \<open>currentTerm\<close>, \<open>votedFor\<close>, the log with its
  commit index, and \<open>leaderId\<close> are unchanged.
\<close>

theorem stale_term_request:
  assumes "t < currentTerm n"
  shows "(role n = Follower \<or> (\<exists>v. role n = Candidate v) \<longrightarrow>
            data_received_peer cfg n peer (Request_vote t candidateId lastLogIndex lastLogTerm) =
              Returned (n\<lparr>effects := effects n @ [Cancel_election_timer, Start_election_timer,
                           Send_peer peer (Response_vote (currentTerm n) False)]\<rparr>)) \<and>
         (role n = Follower \<longrightarrow>
            data_received_peer cfg n peer
                (Append_entries t leader leaderCommit prevLogIndex prevLogTerm es None) =
              Returned (n\<lparr>effects := effects n @ [Cancel_election_timer, Start_election_timer,
                           Send_peer peer
                             (Response_append (currentTerm n) (index (log_mgr n) + 1))]\<rparr>))"
  using assms
  by (subst data_received_peer.simps, subst data_received_peer.simps)
    (auto simp: on_peer_def on_peer_request_vote_def Follower_on_peer_append_entries_def
      success_def restart_election_timer_def send_peer_def Let_def)

theorem stale_term_request_witness:
  "0 < currentTerm example_follower \<and> role example_follower = Follower \<and>
   data_received_peer example_cluster example_follower 3 (Request_vote 0 3 0 (Some 0)) =
     Returned (example_follower\<lparr>effects := [Cancel_election_timer, Start_election_timer,
                                   Send_peer 3 (Response_vote 1 False)]\<rparr>) \<and>
   data_received_peer example_cluster example_follower 3
       (Append_entries 0 3 0 0 (Some 0) [] None) =
     Returned (example_follower\<lparr>effects := [Cancel_election_timer, Start_election_timer,
                                   Send_peer 3 (Response_append 1 1)]\<rparr>)"
  using stale_term_request [of 0 example_follower example_cluster 3 3 0 "Some 0" 3 0 0 "Some 0" "[]"]
  by (simp add: example_follower_def empty_log_def index_def)

subsection \<open>The Follower's vote\<close>

text \<open>
  C4. A Follower that handles \<^verbatim>\<open>request_vote\<close> grants the vote exactly when the message's
  term is at least \<open>currentTerm\<close>, \<open>votedFor\<close> is \<^verbatim>\<open>None\<close> or the candidate, and the
  candidate's \<open>lastLogIndex\<close> is at least the log's index. When it grants, \<open>votedFor\<close>
  becomes the candidate; otherwise it is unchanged. In both cases the reply to the peer is
  \<^verbatim>\<open>response_vote\<close> with \<open>voteGranted\<close> and the current term.
\<close>

theorem follower_request_vote:
  assumes "role n = Follower"
  shows "on_peer cfg n peer (Request_vote t candidateId lastLogIndex lastLogTerm) =
     (let voteGranted = (t \<ge> currentTerm n
                          \<and> (votedFor n = None \<or> votedFor n = Some candidateId)
                          \<and> lastLogIndex \<ge> index (log_mgr n))
      in Returned (n\<lparr>votedFor := (if voteGranted then Some candidateId else votedFor n),
                     effects := effects n @ [Cancel_election_timer, Start_election_timer,
                        Send_peer peer (Response_vote (currentTerm n) voteGranted)]\<rparr>))"
  using assms
  by (auto simp: on_peer_def on_peer_request_vote_def restart_election_timer_def send_peer_def
      Let_def)

theorem follower_request_vote_witness:
  "role example_follower = Follower \<and>
   on_peer example_cluster example_follower 2 (Request_vote 1 2 0 (Some 0)) =
     Returned (example_follower\<lparr>effects := [Cancel_election_timer, Start_election_timer,
                                   Send_peer 2 (Response_vote 1 True)]\<rparr>) \<and>
   on_peer example_cluster example_follower 3 (Request_vote 1 3 0 (Some 0)) =
     Returned (example_follower\<lparr>effects := [Cancel_election_timer, Start_election_timer,
                                   Send_peer 3 (Response_vote 1 False)]\<rparr>)"
  using follower_request_vote [of example_follower example_cluster 2 1 2 0 "Some 0"]
    follower_request_vote [of example_follower example_cluster 3 1 3 0 "Some 0"]
  by (simp add: example_follower_def empty_log_def index_def)

subsection \<open>The Leader's commit\<close>

text \<open>
  What \<^verbatim>\<open>send_client_append_response\<close> sends: success to the clients of every entry of
  \<^verbatim>\<open>waiting_clients\<close> whose index is at least the commit index, in the dictionary's
  order.
\<close>

lemma answer_clients_sent:
  "fst (answer_clients ci wc) =
     concat (map (\<lambda>kv. map (\<lambda>c. Send_client c (Result True)) (snd kv))
               (filter (\<lambda>kv. of_int (fst kv) \<ge> ci) wc))"
  by (induction wc) (auto simp: case_prod_beta Let_def)

lemma send_client_append_response_effects:
  "effects (node_of (send_client_append_response ni wc n)) =
     effects n @ fst (answer_clients (commitIndex (log_mgr n)) wc)"
  by (auto simp: send_client_append_response_def Let_def split: prod.splits option.splits)

text \<open>
  The steps of \<^verbatim>\<open>Leader.on_peer_response_append\<close>, on data that keep the floats exact:
  with the reported \<open>next_index\<close> stored under the peer and \<open>log.index + 1\<close> under the
  node itself, the median \<open>m\<close> of the values exists, the log is committed to
  \<open>m - 1\<close>, \<open>nextIndex\<close> stays as stored, and success is sent to the clients whose
  index is at least the new commit index, whether the handler returns or raises.
\<close>

lemma response_append_steps:
  assumes "role n = Leader nextIndex waiting_clients"
    and "ni = dict_set (dict_set nextIndex peer (of_int next_index)) (node_id n)
                (of_int (index (log_mgr n)) + 1)"
    and "float_exact (dict_values ni)"
    and "r = on_peer cfg n peer (Response_append t next_index)"
  shows "\<exists>m. median (dict_values ni) = Inr m \<and>
             log_mgr (node_of r) = commit (log_mgr n) (m - 1) \<and>
             (\<exists>wc. role (node_of r) = Leader ni wc) \<and>
             effects (node_of r) = effects n @
               concat (map (\<lambda>kv. map (\<lambda>c. Send_client c (Result True)) (snd kv))
                 (filter (\<lambda>kv. of_int (fst kv) \<ge> commitIndex (commit (log_mgr n) (m - 1)))
                    waiting_clients))"
proof -
  have "dict_values ni \<noteq> []"
    using dict_set_nonempty [of "dict_set nextIndex peer (of_int next_index)"] assms(2)
    by (simp add: dict_values_def)
  then obtain m where m: "median (dict_values ni) = Inr m"
    using median_not_raised [of "dict_values ni"] by (cases "median (dict_values ni)") auto
  let ?n1 = "n\<lparr>role := Leader ni waiting_clients, log_mgr := commit (log_mgr n) (m - 1)\<rparr>"
  have r: "r = send_client_append_response ni waiting_clients ?n1"
    using assms(1,2,4) m by (simp add: on_peer_def on_peer_response_append_def Let_def)
  have "log_mgr (node_of r) = commit (log_mgr n) (m - 1)"
    by (simp add: r send_client_append_response_frame(2))
  moreover have "\<exists>wc. role (node_of r) = Leader ni wc"
    by (simp add: r send_client_append_response_frame(1))
  moreover have "effects (node_of r) = effects n @
      concat (map (\<lambda>kv. map (\<lambda>c. Send_client c (Result True)) (snd kv))
        (filter (\<lambda>kv. of_int (fst kv) \<ge> commitIndex (commit (log_mgr n) (m - 1)))
           waiting_clients))"
    by (simp add: r send_client_append_response_effects answer_clients_sent)
  ultimately show ?thesis using m by blast
qed

text \<open>
  C5. The Leader with clients 7 and 8 waiting for entries 1 and 2 receives
  \<^verbatim>\<open>response_append\<close> with \<open>next_index = 3\<close> from node 2. The first steps are as the claim
  has them: \<open>nextIndex\<close> becomes 3 for node 2 and 3 for the Leader itself, the median of
  3, 3 and 1 is 3, and the commit index goes from 0 to 2. The last step is not: only
  client 8 is sent a result. Client 7 waits for entry 1, which is committed, and is sent
  nothing and stays in \<^verbatim>\<open>waiting_clients\<close>, because the test is
  \<^verbatim>\<open>client_index >= self.log.commitIndex\<close>.
\<close>

theorem leader_commit_skips_committed_client:
  "data_received_peer example_cluster example_leader 2 (Response_append 1 3) =
     Returned
       (example_leader\<lparr>role := Leader [(1, 3), (2, 3), (3, 1)] [(1, [7])],
                       log_mgr := two_entry_log\<lparr>commitIndex := 2\<rparr>,
                       effects := [Send_client 8 (Result True)]\<rparr>)"
  by (subst data_received_peer.simps)
    (simp add: example_leader_def two_entry_log_def on_peer_def on_peer_response_append_def
      send_client_append_response_def median_def commit_def index_def dict_values_def
      dict_keys_def dict_del_def)

subsection \<open>Handlers that raise\<close>

text \<open>
  C6. A Follower that knows no leader receives \<^verbatim>\<open>append\<close> from client 9:
  \<^verbatim>\<open>config.cluster[None]\<close> raises \<^verbatim>\<open>KeyError\<close> before anything is sent, where the claim
  has a redirect with \<open>leader = null\<close>.
\<close>

theorem redirect_unknown_leader_raises:
  "role example_follower = Follower \<and> leaderId example_follower = None \<and>
   data_received_client example_cluster example_follower 9 (Append ''x'') =
     Raised KeyError example_follower"
  by (simp add: example_follower_def data_received_client_def State_on_client_append_def)

text \<open>
  C7. A handler that raises: the Leader with clients waiting for entries 1 and 2 and a
  commit index of 0 receives \<^verbatim>\<open>response_append\<close> with \<open>next_index = 1\<close> from node 2.
  Both clients are told of success, key 2 is deleted for the first element of
  \<^verbatim>\<open>to_delete\<close>, and the second \<^verbatim>\<open>del self.waiting_clients[client_index]\<close> raises
  \<^verbatim>\<open>KeyError\<close>.
\<close>

theorem leader_handler_raises:
  "data_received_peer example_cluster example_leader 2 (Response_append 1 1) =
     Raised KeyError
       (example_leader\<lparr>role := Leader [(1, 3), (2, 1), (3, 1)] [(1, [7])],
                       effects := [Send_client 7 (Result True), Send_client 8 (Result True)]\<rparr>)"
  by (subst data_received_peer.simps)
    (simp add: example_leader_def two_entry_log_def on_peer_def on_peer_response_append_def
      send_client_append_response_def median_def commit_def index_def dict_values_def
      dict_keys_def dict_del_def)

subsection \<open>The Candidate's election\<close>

text \<open>
  C8. A Candidate built from any old state has \<open>votes_count = 1\<close>, the old term plus one,
  and its own identifier as \<open>votedFor\<close>. When a Candidate handles \<^verbatim>\<open>response_vote\<close>, the
  count grows by one for a granted vote and by nothing otherwise; if the new count is more
  than half the size of the cluster the node becomes a Leader (the constructor returns),
  and if not it stays a Candidate with the new count.
\<close>

theorem candidate_votes:
  "role (Candidate_init old) = Candidate 1 \<and>
   currentTerm (Candidate_init old) = currentTerm old + 1 \<and>
   votedFor (Candidate_init old) = Some (node_id old) \<and>
   (role n = Candidate votes_count \<longrightarrow>
      (let votes = votes_count + (if voteGranted then 1 else 0);
           r = on_peer cfg n peer (Response_vote t voteGranted)
       in if (of_int votes :: rat) > of_nat (length (cluster cfg)) / 2
          then \<exists>n' nextIndex. r = Returned n' \<and> role n' = Leader nextIndex []
          else r = Returned (n\<lparr>role := Candidate votes\<rparr>)))"
proof -
  have entry: "role (Candidate_init old) = Candidate 1 \<and>
      currentTerm (Candidate_init old) = currentTerm old + 1 \<and>
      votedFor (Candidate_init old) = Some (node_id old)"
    by (simp add: Candidate_init_def Follower_init_def restart_election_timer_def
        send_vote_requests_def broadcast_peers_def Let_def)
  show ?thesis
    using entry change_state_Leader_returns
    by (simp add: on_peer_def on_peer_response_vote_def Let_def)
qed

theorem candidate_votes_witness:
  "role example_candidate = Candidate 1 \<and>
   (\<exists>n' nextIndex. on_peer example_cluster example_candidate 2 (Response_vote 2 True) = Returned n'
       \<and> role n' = Leader nextIndex []) \<and>
   on_peer example_cluster example_candidate 2 (Response_vote 2 False) =
     Returned example_candidate"
  using candidate_votes [of example_follower example_candidate 1 True example_cluster 2 2]
    candidate_votes [of example_follower example_candidate 1 False example_cluster 2 2]
  by (auto simp: example_candidate_def example_cluster_def Let_def)

subsection \<open>A Follower and a higher term\<close>

text \<open>
  C9. A Follower that receives a peer message of a term above its own takes the term and
  returns: the node is otherwise the same, so no handler has run, nothing was sent, and
  \<open>votedFor\<close>, the log and \<open>leaderId\<close> are as before.
\<close>

theorem follower_higher_term_drops:
  assumes "role n = Follower" and "msg_term m > currentTerm n"
  shows "data_received_peer cfg n peer m = Returned (n\<lparr>currentTerm := msg_term m\<rparr>)"
  using assms by (subst data_received_peer.simps) simp

theorem follower_higher_term_drops_witness:
  "role example_follower = Follower \<and>
   msg_term (Append_entries 2 3 0 0 (Some 0) [] None) > currentTerm example_follower \<and>
   data_received_peer example_cluster example_follower 3 (Append_entries 2 3 0 0 (Some 0) [] None) =
     Returned (example_follower\<lparr>currentTerm := 2\<rparr>)"
  using follower_higher_term_drops
    [of example_follower "Append_entries 2 3 0 0 (Some 0) [] None" example_cluster 3]
  by (simp add: example_follower_def)

subsection \<open>A null \<open>prevLogTerm\<close>\<close>

text \<open>
  C10. When \<^verbatim>\<open>msg['prevLogTerm']\<close> is \<^verbatim>\<open>None\<close>, \<open>prev_log_term_match\<close> holds whatever the
  log is, and \<open>success\<close> is the test of the term alone. For a message without snapshot
  fields the Follower then appends the entries, commits and takes the leader exactly when
  the message's term is at least its own.
\<close>

theorem null_prev_log_term:
  "prev_log_term_match n prevLogIndex None \<and>
   success n t prevLogIndex None = (t \<ge> currentTerm n) \<and>
   (role n = Follower \<longrightarrow>
      on_peer cfg n peer (Append_entries t leader leaderCommit prevLogIndex None es None) =
        Returned
          (let n1 = restart_election_timer True n;
               n2 = (if t \<ge> currentTerm n
                     then n1\<lparr>log_mgr := commit (append_entries (log_mgr n) es prevLogIndex)
                                            leaderCommit,
                             leaderId := Some leader\<rparr>
                     else n1)
           in send_peer n2 peer (Response_append (currentTerm n) (index (log_mgr n2) + 1))))"
  by (simp add: on_peer_def Follower_on_peer_append_entries_def success_def
      prev_log_term_match_def restart_election_timer_def send_peer_def Let_def)

theorem null_prev_log_term_witness:
  "role example_follower = Follower \<and>
   on_peer example_cluster example_follower 2
       (Append_entries 1 2 1 0 None [\<lparr>e_term = 1, e_data = ''x''\<rparr>] None) =
     Returned (example_follower
       \<lparr>leaderId := Some 2,
        log_mgr := empty_log\<lparr>entries := [\<lparr>e_term = 1, e_data = ''x''\<rparr>], commitIndex := 1\<rparr>,
        effects := [Cancel_election_timer, Start_election_timer,
                    Send_peer 2 (Response_append 1 2)]\<rparr>)"
  using null_prev_log_term
    [of example_follower 0 1 example_cluster 2 2 1 "[\<lparr>e_term = 1, e_data = ''x''\<rparr>]"]
  by (simp add: example_follower_def empty_log_def index_def commit_def append_entries_def
      entry_at_def restart_election_timer_def send_peer_def)

end
